theory Spec2Isabelle
  imports Main "HOL-Library.Word"
begin

section \<open>Data model of vtkShaderProgram\<close>

text \<open>
  The C++ class keeps its handles in \<^verbatim>\<open>int\<close> fields and passes them to OpenGL as
  \<^verbatim>\<open>GLuint\<close>. Both are 32 bits wide and \<^verbatim>\<open>static_cast\<close> between them keeps the bit
  pattern, so one type of 32-bit words stands for both and the casts are not written.
  Where the code compares signed numbers, the word is read with \<open>sint\<close>;
  \<^verbatim>\<open>-1\<close> is the word of all ones.
\<close>

type_synonym c_int = "32 word"
type_synonym GLint = "32 word"
type_synonym GLuint = "32 word"

text \<open>\<^verbatim>\<open>vtkShader::Type\<close>, as the program uses it.\<close>

datatype shader_type = Vertex | Fragment | Geometry | Unknown

text \<open>
  What the program reads of a \<^verbatim>\<open>vtkShader\<close>: \<^verbatim>\<open>GetType()\<close>, \<^verbatim>\<open>GetHandle()\<close>,
  \<^verbatim>\<open>GetSource()\<close> and \<^verbatim>\<open>GetError()\<close>.
\<close>

record vtkShader =
  ShaderType :: shader_type
  ShaderHandle :: c_int
  ShaderSource :: string
  ShaderError :: string

text \<open>The member variables of \<^verbatim>\<open>vtkShaderProgram\<close> (vtkShaderProgram.h, protected section).\<close>

record vtkShaderProgram =
  VertexShader :: vtkShader
  FragmentShader :: vtkShader
  GeometryShader :: vtkShader
  MD5Hash :: string
  Handle :: c_int
  VertexShaderHandle :: c_int
  FragmentShaderHandle :: c_int
  Linked :: bool
  Bound :: bool
  Compiled :: bool
  Error :: string
  Attributes :: "string \<rightharpoonup> c_int"

section \<open>The OpenGL context and the error output\<close>

datatype gl_pname = GL_LINK_STATUS | GL_INFO_LOG_LENGTH

datatype gl_type = GL_BYTE | GL_UNSIGNED_BYTE | GL_SHORT | GL_UNSIGNED_SHORT
  | GL_INT | GL_UNSIGNED_INT | GL_FLOAT | GL_DOUBLE | GL_type_0

text \<open>
  Every native call the class issues, with its arguments. A client pointer
  (\<^verbatim>\<open>const GLvoid *\<close>) is an address.
\<close>

datatype gl_call =
    GlCreateProgram
  | GlAttachShader GLuint GLuint
  | GlDetachShader GLuint GLuint
  | GlLinkProgram GLuint
  | GlGetProgramiv GLuint gl_pname
  | GlGetShaderiv GLuint gl_pname
  | GlGetShaderInfoLog GLuint GLint
  | GlUseProgram GLuint
  | GlDeleteProgram GLuint
  | GlGetAttribLocation GLuint string
  | GlGetUniformLocation GLuint string
  | GlVertexAttribPointer GLint c_int gl_type bool c_int nat

text \<open>
  The world outside the object: the native calls issued so far, in order, and the messages
  handed to \<^verbatim>\<open>vtkErrorMacro\<close>, in order.
\<close>

record world =
  glCalls :: "gl_call list"
  errorOutput :: "string list"

text \<open>
  What the driver answers. Each answer may depend on the whole history of calls, the
  answered call being the last of it; since every call is recorded before its answer is
  read, any deterministic driver is an instance.
\<close>

record gl_env =
  glCreateProgram_ret :: "gl_call list \<Rightarrow> GLuint"
  glGetProgramiv_ret :: "gl_call list \<Rightarrow> GLint"
  glGetShaderiv_ret :: "gl_call list \<Rightarrow> GLint"
  glGetShaderInfoLog_ret :: "gl_call list \<Rightarrow> string"
  glGetAttribLocation_ret :: "gl_call list \<Rightarrow> GLint"
  glGetUniformLocation_ret :: "gl_call list \<Rightarrow> GLint"

definition native :: "gl_call \<Rightarrow> world \<Rightarrow> world" where
  "native c w = w\<lparr>glCalls := glCalls w @ [c]\<rparr>"

definition vtkErrorMacro :: "string \<Rightarrow> world \<Rightarrow> world" where
  "vtkErrorMacro msg w = w\<lparr>errorOutput := errorOutput w @ [msg]\<rparr>"

section \<open>Attach, detach, link\<close>

text \<open>
  Lines 122-132 of \<^verbatim>\<open>AttachShader\<close>: the native program is created on first use.
  \<open>Inl\<close> is the early \<^verbatim>\<open>return false\<close>.
\<close>

definition createProgramIfNeeded ::
  "gl_env \<Rightarrow> vtkShaderProgram \<Rightarrow> world \<Rightarrow> (vtkShaderProgram \<times> world) + (vtkShaderProgram \<times> world)" where
  "createProgramIfNeeded gl this w =
     (if Handle this = 0 then
        (let w1 = native GlCreateProgram w;
             new_handle = glCreateProgram_ret gl (glCalls w1)
         in if new_handle = 0
            then Inl (this\<lparr>Error := ''Could not create shader program.''\<rparr>, w1)
            else Inr (this\<lparr>Handle := new_handle, Linked := False\<rparr>, w1))
      else Inr (this, w))"

definition AttachShader ::
  "gl_env \<Rightarrow> vtkShader \<Rightarrow> vtkShaderProgram \<Rightarrow> world \<Rightarrow> bool \<times> vtkShaderProgram \<times> world" where
  "AttachShader gl shader this w =
     (if ShaderHandle shader = 0 then
        (False, this\<lparr>Error := ''Shader object was not initialized, cannot attach it.''\<rparr>, w)
      else if ShaderType shader = Unknown then
        (False, this\<lparr>Error := ''Shader object is of type Unknown and cannot be used.''\<rparr>, w)
      else
        (case createProgramIfNeeded gl this w of
           Inl (this1, w1) \<Rightarrow> (False, this1, w1)
         | Inr (this1, w1) \<Rightarrow>
             if ShaderType shader = Vertex then
               (let w2 = (if VertexShaderHandle this1 \<noteq> 0
                          then native (GlDetachShader (Handle this1)
                                         (VertexShaderHandle this1)) w1
                          else w1);
                    this2 = this1\<lparr>VertexShaderHandle := ShaderHandle shader\<rparr>;
                    w3 = native (GlAttachShader (Handle this2)
                                   (ShaderHandle shader)) w2
                in (True, this2\<lparr>Linked := False\<rparr>, w3))
             else if ShaderType shader = Fragment then
               (let w2 = (if FragmentShaderHandle this1 \<noteq> 0
                          then native (GlDetachShader (Handle this1)
                                         (FragmentShaderHandle this1)) w1
                          else w1);
                    this2 = this1\<lparr>FragmentShaderHandle := ShaderHandle shader\<rparr>;
                    w3 = native (GlAttachShader (Handle this2)
                                   (ShaderHandle shader)) w2
                in (True, this2\<lparr>Linked := False\<rparr>, w3))
             else
               (False,
                this1\<lparr>Error := ''Unknown shader type encountered - this should not happen.''\<rparr>,
                w1)))"

text \<open>
  \<^verbatim>\<open>DetachShader\<close>. The check of \<^verbatim>\<open>this->Handle == 0\<close> (lines 176-179) assigns the
  error text and has no \<^verbatim>\<open>return\<close>: control continues into the \<^verbatim>\<open>switch\<close>.
\<close>

definition DetachShader ::
  "vtkShader \<Rightarrow> vtkShaderProgram \<Rightarrow> world \<Rightarrow> bool \<times> vtkShaderProgram \<times> world" where
  "DetachShader shader this w =
     (if ShaderHandle shader = 0 then
        (False, this\<lparr>Error := ''Shader object was not initialized, cannot attach it.''\<rparr>, w)
      else if ShaderType shader = Unknown then
        (False, this\<lparr>Error := ''Shader object is of type Unknown and cannot be used.''\<rparr>, w)
      else
        (let this1 = (if Handle this = 0
                      then this\<lparr>Error := ''This shader prorgram has not been initialized yet.''\<rparr>
                      else this)
         in case ShaderType shader of
              Vertex \<Rightarrow>
                if VertexShaderHandle this1 \<noteq> ShaderHandle shader then
                  (False,
                   this1\<lparr>Error := ''The supplied shader was not attached to this program.''\<rparr>, w)
                else
                  (True, this1\<lparr>VertexShaderHandle := 0, Linked := False\<rparr>,
                   native (GlDetachShader (Handle this1) (ShaderHandle shader)) w)
            | Fragment \<Rightarrow>
                if FragmentShaderHandle this1 \<noteq> ShaderHandle shader then
                  (False,
                   this1\<lparr>Error := ''The supplied shader was not attached to this program.''\<rparr>, w)
                else
                  (True, this1\<lparr>FragmentShaderHandle := 0, Linked := False\<rparr>,
                   native (GlDetachShader (Handle this1) (ShaderHandle shader)) w)
            | _ \<Rightarrow> (False, this1, w)))"

text \<open>
  \<^verbatim>\<open>Link\<close>. \<^verbatim>\<open>isCompiled\<close> and \<^verbatim>\<open>length\<close> are \<^verbatim>\<open>GLint\<close>, compared as signed
  numbers. The info log is whatever the driver left in the buffer.
\<close>

definition Link ::
  "gl_env \<Rightarrow> vtkShaderProgram \<Rightarrow> world \<Rightarrow> bool \<times> vtkShaderProgram \<times> world" where
  "Link gl this w =
     (if Linked this then (True, this, w)
      else if Handle this = 0 then
        (False,
         this\<lparr>Error := ''Program has not been initialized, and/or does not have shaders.''\<rparr>, w)
      else
        (let w1 = native (GlLinkProgram (Handle this)) w;
             w2 = native (GlGetProgramiv (Handle this) GL_LINK_STATUS) w1;
             isCompiled = glGetProgramiv_ret gl (glCalls w2)
         in if isCompiled = 0 then
              (let w3 = native (GlGetShaderiv (Handle this) GL_INFO_LOG_LENGTH) w2;
                   log_length = glGetShaderiv_ret gl (glCalls w3)
               in if 1 < sint log_length then
                    (let w4 = native (GlGetShaderInfoLog (Handle this) log_length) w3;
                         logMessage = glGetShaderInfoLog_ret gl (glCalls w4)
                     in (False, this\<lparr>Error := logMessage\<rparr>, w4))
                  else (False, this, w3))
            else (True, this\<lparr>Linked := True, Attributes := Map.empty\<rparr>, w2)))"

definition Bind ::
  "gl_env \<Rightarrow> vtkShaderProgram \<Rightarrow> world \<Rightarrow> bool \<times> vtkShaderProgram \<times> world" where
  "Bind gl this w =
     (case (if \<not> Linked this then Link gl this w else (True, this, w)) of
        (False, this1, w1) \<Rightarrow> (False, this1, w1)
      | (True, this1, w1) \<Rightarrow>
          (True, this1\<lparr>Bound := True\<rparr>, native (GlUseProgram (Handle this1)) w1))"

definition Release :: "vtkShaderProgram \<Rightarrow> world \<Rightarrow> vtkShaderProgram \<times> world" where
  "Release this w = (this\<lparr>Bound := False\<rparr>, native (GlUseProgram 0) w)"

section \<open>Name resolution and attribute upload\<close>

text \<open>
  \<^verbatim>\<open>FindAttributeArray\<close> and \<^verbatim>\<open>FindUniform\<close>. The early return only returns: it
  assigns nothing. Neither function reads or writes \<^verbatim>\<open>Attributes\<close>. The name is handed
  over as the pointer \<^verbatim>\<open>name.c_str()\<close>.
\<close>

definition FindAttributeArray ::
  "gl_env \<Rightarrow> string \<Rightarrow> vtkShaderProgram \<Rightarrow> world \<Rightarrow> c_int \<times> vtkShaderProgram \<times> world" where
  "FindAttributeArray gl name this w =
     (if name = [] \<or> \<not> Linked this then (- 1, this, w)
      else
        (let w1 = native (GlGetAttribLocation (Handle this) name) w;
             location = glGetAttribLocation_ret gl (glCalls w1)
         in if location = - 1 then
              (location,
               this\<lparr>Error := ''Specified attribute not found in current shader program: '' @ name\<rparr>,
               w1)
            else (location, this, w1)))"

definition FindUniform ::
  "gl_env \<Rightarrow> string \<Rightarrow> vtkShaderProgram \<Rightarrow> world \<Rightarrow> c_int \<times> vtkShaderProgram \<times> world" where
  "FindUniform gl name this w =
     (if name = [] \<or> \<not> Linked this then (- 1, this, w)
      else
        (let w1 = native (GlGetUniformLocation (Handle this) name) w;
             location = glGetUniformLocation_ret gl (glCalls w1)
         in if location = - 1 then
              (location,
               this\<lparr>Error := ''Uniform '' @ name @ '' not found in current shader program.''\<rparr>,
               w1)
            else (location, this, w1)))"

datatype NormalizeOption = Normalize | NoNormalize

text \<open>
  The scalar type tags \<^verbatim>\<open>VTK_CHAR\<close> ... \<^verbatim>\<open>VTK_DOUBLE\<close> are macros of vtkType.h, which
  is not part of the sources at hand: they are a parameter. They are the labels of one
  \<^verbatim>\<open>switch\<close>, hence pairwise different, and the cases are tried in the order written.
  \<^verbatim>\<open>GL_DOUBLE\<close> is taken as defined, as it is with the GLEW header the file includes.
\<close>

record vtk_type_ids =
  VTK_CHAR :: c_int
  VTK_UNSIGNED_CHAR :: c_int
  VTK_SHORT :: c_int
  VTK_UNSIGNED_SHORT :: c_int
  VTK_INT :: c_int
  VTK_UNSIGNED_INT :: c_int
  VTK_FLOAT :: c_int
  VTK_DOUBLE :: c_int

definition convertTypeToGL :: "vtk_type_ids \<Rightarrow> c_int \<Rightarrow> gl_type" where
  "convertTypeToGL ids type =
     (if type = VTK_CHAR ids then GL_BYTE
      else if type = VTK_UNSIGNED_CHAR ids then GL_UNSIGNED_BYTE
      else if type = VTK_SHORT ids then GL_SHORT
      else if type = VTK_UNSIGNED_SHORT ids then GL_UNSIGNED_SHORT
      else if type = VTK_INT ids then GL_INT
      else if type = VTK_UNSIGNED_INT ids then GL_UNSIGNED_INT
      else if type = VTK_FLOAT ids then GL_FLOAT
      else if type = VTK_DOUBLE ids then GL_DOUBLE
      else GL_type_0)"

definition SetAttributeArrayInternal ::
  "gl_env \<Rightarrow> vtk_type_ids \<Rightarrow> string \<Rightarrow> nat \<Rightarrow> c_int \<Rightarrow> c_int \<Rightarrow> NormalizeOption \<Rightarrow>
     vtkShaderProgram \<Rightarrow> world \<Rightarrow> bool \<times> vtkShaderProgram \<times> world" where
  "SetAttributeArrayInternal gl ids name buffer type tupleSize normalizeOpt this w =
     (if type = - 1 then
        (False, this\<lparr>Error := ''Unrecognized data type for attribute '' @ name @ ''.''\<rparr>, w)
      else
        (case FindAttributeArray gl name this w of
           (location, this1, w1) \<Rightarrow>
             if location = - 1 then
               (False,
                this1\<lparr>Error := ''Could not set attribute '' @ name @ ''. No such attribute.''\<rparr>,
                w1)
             else
               (True, this1,
                native (GlVertexAttribPointer location tupleSize (convertTypeToGL ids type)
                          (normalizeOpt = Normalize) 0 buffer) w1)))"

text \<open>
  The template \<^verbatim>\<open>SetAttributeArray<T>\<close>. Of the container \<^verbatim>\<open>array\<close> the code uses
  \<^verbatim>\<open>array.empty()\<close> and the address \<^verbatim>\<open>&array[0]\<close>: the container is the list of
  its elements together with the address \<open>array_data\<close> of the first one.
  \<open>VTKTypeID\<close> is what \<^verbatim>\<open>vtkTypeTraits<typename T::value_type>::VTKTypeID()\<close> returns
  (vtkTypeTraits.h, not part of the sources at hand).
\<close>

definition SetAttributeArray ::
  "gl_env \<Rightarrow> vtk_type_ids \<Rightarrow> c_int \<Rightarrow> string \<Rightarrow> 'a list \<Rightarrow> nat \<Rightarrow> c_int \<Rightarrow> NormalizeOption \<Rightarrow>
     vtkShaderProgram \<Rightarrow> world \<Rightarrow> bool \<times> vtkShaderProgram \<times> world" where
  "SetAttributeArray gl ids VTKTypeID name array array_data tupleSize normalizeOpt this w =
     (if array = [] then
        (False, this\<lparr>Error := ''Refusing to upload empty array for attribute '' @ name @ ''.''\<rparr>, w)
      else
        (let type = VTKTypeID
         in SetAttributeArrayInternal gl ids name array_data type tupleSize normalizeOpt this w))"

section \<open>Compilation\<close>

text \<open>
  \<^verbatim>\<open>sstm << lineNum\<close> writes the line number in decimal. The counter starts at 1 and is
  only incremented; a listing of fewer than \<open>2^31\<close> lines never overflows the \<^verbatim>\<open>int\<close>,
  so the counter is a natural number here.
\<close>

definition digitChar :: "nat \<Rightarrow> char" where
  "digitChar d = char_of (d + 48)"

fun showDecimal :: "nat \<Rightarrow> string" where
  "showDecimal lineNum =
     (if lineNum < 10 then [digitChar lineNum]
      else showDecimal (lineNum div 10) @ [digitChar (lineNum mod 10)])"

declare showDecimal.simps [simp del]

text \<open>
  \<^verbatim>\<open>std::getline(stream, aline)\<close> on the rest of the stream: it fails at the end of the
  input; otherwise it reads up to the next line feed, which it consumes and drops, or up
  to the end of the input.
\<close>

definition getline :: "string \<Rightarrow> (string \<times> string) option" where
  "getline stream =
     (if stream = [] then None
      else Some (takeWhile (\<lambda>c. c \<noteq> CHR 0x0A) stream,
                 drop 1 (dropWhile (\<lambda>c. c \<noteq> CHR 0x0A) stream)))"

function listingLoop :: "string \<Rightarrow> nat \<Rightarrow> string \<Rightarrow> string" where
  "listingLoop stream lineNum sstm =
     (case getline stream of
        None \<Rightarrow> sstm
      | Some (aline, rest) \<Rightarrow>
          listingLoop rest (lineNum + 1)
            (sstm @ showDecimal lineNum @ '': '' @ aline @ [CHR 0x0A]))"
  by pat_completeness auto
termination
proof (relation "measure (\<lambda>(stream, lineNum, sstm). length stream)")
  show "wf (measure (\<lambda>(stream, lineNum, sstm). length stream))"
    by simp
next
  fix stream :: string and lineNum :: nat and sstm :: string
    and x2 :: "string \<times> string" and aline rest :: string
  assume "getline stream = Some x2" and "(aline, rest) = x2"
  then have ne: "stream \<noteq> []"
    and rest: "rest = drop 1 (dropWhile (\<lambda>c. c \<noteq> CHR 0x0A) stream)"
    by (auto simp: getline_def split: if_splits)
  have "length (dropWhile (\<lambda>c. c \<noteq> CHR 0x0A) stream) \<le> length stream"
    by (rule length_dropWhile_le)
  moreover have "dropWhile (\<lambda>c. c \<noteq> CHR 0x0A) stream = [] \<or>
      length (drop 1 (dropWhile (\<lambda>c. c \<noteq> CHR 0x0A) stream))
        < length (dropWhile (\<lambda>c. c \<noteq> CHR 0x0A) stream)"
    by (cases "dropWhile (\<lambda>c. c \<noteq> CHR 0x0A) stream") simp_all
  ultimately have "length rest < length stream"
    using ne rest by (cases stream) auto
  then show "((rest, lineNum + 1, sstm @ showDecimal lineNum @ '': '' @ aline @ [CHR 0x0A]),
              (stream, lineNum, sstm)) \<in> measure (\<lambda>(stream, lineNum, sstm). length stream)"
    by simp
qed

declare listingLoop.simps [simp del]

text \<open>The block that both failure branches of \<^verbatim>\<open>CompileShader\<close> run on a source text.\<close>

definition sourceListing :: "string \<Rightarrow> string" where
  "sourceListing source = listingLoop source 1 []"

text \<open>
  \<^verbatim>\<open>CompileShader\<close>. \<open>Compile\<close> is \<^verbatim>\<open>vtkShader::Compile()\<close> (vtkShader.cxx, not part
  of the sources at hand), a parameter: it returns its verdict and the shader object as it
  leaves it. The result is the \<^verbatim>\<open>int\<close> the method returns.
\<close>

definition CompileShader ::
  "gl_env \<Rightarrow> (vtkShader \<Rightarrow> bool \<times> vtkShader) \<Rightarrow> vtkShaderProgram \<Rightarrow> world \<Rightarrow>
     c_int \<times> vtkShaderProgram \<times> world" where
  "CompileShader gl Compile this w =
     (case Compile (VertexShader this) of
        (okV, vs) \<Rightarrow>
          (let this1 = this\<lparr>VertexShader := vs\<rparr>
           in if \<not> okV then
                (0, this1,
                 vtkErrorMacro (sourceListing (ShaderSource (VertexShader this1)))
                   (vtkErrorMacro (ShaderError (VertexShader this1)) w))
              else
                (case Compile (FragmentShader this1) of
                   (okF, fs) \<Rightarrow>
                     (let this2 = this1\<lparr>FragmentShader := fs\<rparr>
                      in if \<not> okF then
                           (0, this2,
                            vtkErrorMacro (sourceListing (ShaderSource (FragmentShader this2)))
                              (vtkErrorMacro (ShaderError (FragmentShader this2)) w))
                         else
                           (case AttachShader gl (VertexShader this2) this2 w of
                              (okA, this3, w3) \<Rightarrow>
                                if \<not> okA then (0, this3, vtkErrorMacro (Error this3) w3)
                                else
                                  (case AttachShader gl (FragmentShader this3) this3 w3 of
                                     (okB, this4, w4) \<Rightarrow>
                                       if \<not> okB then (0, this4, vtkErrorMacro (Error this4) w4)
                                       else
                                         (case Link gl this4 w4 of
                                            (okL, this5, w5) \<Rightarrow>
                                              if \<not> okL then
                                                (0, this5,
                                                 vtkErrorMacro (''Links failed: '' @ Error this5) w5)
                                              else (1, this5\<lparr>Compiled := True\<rparr>, w5))))))))"

section \<open>Release of the graphics resources\<close>

text \<open>
  The render window holds the shader cache, which remembers the program bound last as a
  pointer (\<open>None\<close> is \<^verbatim>\<open>NULL\<close>); a program is pointed to by its address.
\<close>

record vtkOpenGLShaderCache =
  LastShaderBound :: "nat option"

record vtkOpenGLRenderWindow =
  ShaderCache :: vtkOpenGLShaderCache

text \<open>
  Modelled from the spec: \<^verbatim>\<open>vtkOpenGLShaderCache::ClearLastShaderBound()\<close> is declared
  in vtkOpenGLShaderCache.h, which is not part of the sources at hand; the spec has the
  cache "clear its last bound program reference".
\<close>

definition ClearLastShaderBound :: "vtkOpenGLShaderCache \<Rightarrow> vtkOpenGLShaderCache" where
  "ClearLastShaderBound cache = cache\<lparr>LastShaderBound := None\<rparr>"

datatype error = NullPointerDereference

text \<open>
  \<^verbatim>\<open>ReleaseGraphicsResources(win)\<close>. \<open>self\<close> is the address \<^verbatim>\<open>this\<close>; \<open>win\<close> is the
  result of \<^verbatim>\<open>vtkOpenGLRenderWindow::SafeDownCast(win)\<close>, \<open>None\<close> when the pointer is
  \<^verbatim>\<open>NULL\<close> or the window is of another class: the code then dereferences a null pointer.
  \<open>Cleanup\<close> is \<^verbatim>\<open>vtkShader::Cleanup()\<close>, a parameter as \<open>Compile\<close> is.
  \<open>cleanupIfCompiled\<close> is the block of lines 328-335; the results of its two
  \<^verbatim>\<open>DetachShader\<close> calls are discarded, as in the code.
\<close>

definition cleanupIfCompiled ::
  "(vtkShader \<Rightarrow> vtkShader) \<Rightarrow> vtkShaderProgram \<Rightarrow> world \<Rightarrow> vtkShaderProgram \<times> world" where
  "cleanupIfCompiled Cleanup this w =
     (if Compiled this then
        (case DetachShader (VertexShader this) this w of
           (okV, thisV, wV) \<Rightarrow>
             (case DetachShader (FragmentShader thisV) thisV wV of
                (okF, thisF, wF) \<Rightarrow>
                  (thisF\<lparr>VertexShader := Cleanup (VertexShader thisF),
                          FragmentShader := Cleanup (FragmentShader thisF),
                          Compiled := False\<rparr>, wF)))
      else (this, w))"

definition ReleaseGraphicsResources ::
  "(vtkShader \<Rightarrow> vtkShader) \<Rightarrow> nat \<Rightarrow> vtkOpenGLRenderWindow option \<Rightarrow> vtkShaderProgram \<Rightarrow> world \<Rightarrow>
     error + (vtkShaderProgram \<times> vtkOpenGLRenderWindow \<times> world)" where
  "ReleaseGraphicsResources Cleanup self win this w =
     (case Release this w of
        (this1, w1) \<Rightarrow>
          (case cleanupIfCompiled Cleanup this1 w1 of
             (this2, w2) \<Rightarrow>
               (case win of
                  None \<Rightarrow> Inl NullPointerDereference
                | Some renWin \<Rightarrow>
                    (let renWin1 =
                           (if LastShaderBound (ShaderCache renWin) = Some self
                            then renWin\<lparr>ShaderCache := ClearLastShaderBound (ShaderCache renWin)\<rparr>
                            else renWin)
                     in if Handle this2 \<noteq> 0 then
                          Inr (this2\<lparr>Handle := 0, Linked := False\<rparr>, renWin1,
                               native (GlDeleteProgram (Handle this2)) w2)
                        else Inr (this2, renWin1, w2)))))"

section \<open>Construction, and the states that occur\<close>

text \<open>
  The constructor. \<open>fresh\<close> is the object \<^verbatim>\<open>vtkShader::New()\<close> returns; \<^verbatim>\<open>SetType\<close>
  sets its type. The strings and the map start empty.
\<close>

definition vtkShaderProgram_New :: "vtkShader \<Rightarrow> vtkShaderProgram" where
  "vtkShaderProgram_New fresh =
     \<lparr>VertexShader = fresh\<lparr>ShaderType := Vertex\<rparr>,
      FragmentShader = fresh\<lparr>ShaderType := Fragment\<rparr>,
      GeometryShader = fresh\<lparr>ShaderType := Geometry\<rparr>,
      MD5Hash = [],
      Handle = 0, VertexShaderHandle = 0, FragmentShaderHandle = 0,
      Linked = False, Bound = False, Compiled = False,
      Error = [], Attributes = Map.empty\<rparr>"

text \<open>
  Every state the operations produce from a constructed program keeps this: a linked
  program has a native handle.
\<close>

definition linked_has_handle :: "vtkShaderProgram \<Rightarrow> bool" where
  "linked_has_handle this = (Linked this \<longrightarrow> Handle this \<noteq> 0)"

section \<open>The specification's listing and steps\<close>

text \<open>
  The listing as the specification words it: the source text split on line breaks, each
  line written after its number, counted from 1, a colon and a blank, and ended by a line
  feed. A line is a run of characters up to a line feed; what follows the last line feed
  is a line if it is not empty.
\<close>

fun spec_lines_from :: "string \<Rightarrow> string \<Rightarrow> string list" where
  "spec_lines_from cur [] = (if cur = [] then [] else [cur])"
| "spec_lines_from cur (c # cs) =
     (if c = CHR 0x0A then cur # spec_lines_from [] cs else spec_lines_from (cur @ [c]) cs)"

definition spec_lines :: "string \<Rightarrow> string list" where
  "spec_lines source = spec_lines_from [] source"

definition spec_listing :: "string \<Rightarrow> string" where
  "spec_listing source =
     concat (map (\<lambda>(n, aline). showDecimal n @ '': '' @ aline @ [CHR 0x0A])
               (enumerate 1 (spec_lines source)))"

text \<open>
  "Every step succeeds", as the specification words it: the compile of the vertex shader,
  the compile of the fragment shader, the attach of each, then the link, each on the state
  the steps before it have left.
\<close>

definition all_steps_succeed ::
  "gl_env \<Rightarrow> (vtkShader \<Rightarrow> bool \<times> vtkShader) \<Rightarrow> vtkShaderProgram \<Rightarrow> world \<Rightarrow> bool" where
  "all_steps_succeed gl Compile this w =
     (case Compile (VertexShader this) of
        (okV, vs) \<Rightarrow> okV \<and>
          (case Compile (FragmentShader this) of
             (okF, fs) \<Rightarrow> okF \<and>
               (case AttachShader gl vs (this\<lparr>VertexShader := vs, FragmentShader := fs\<rparr>) w of
                  (okA, thisA, wA) \<Rightarrow> okA \<and>
                    (case AttachShader gl fs thisA wA of
                       (okB, thisB, wB) \<Rightarrow> okB \<and> fst (Link gl thisB wB)))))"

section \<open>Concrete objects\<close>

text \<open>
  A driver that hands out program 1, reports every link as successful and knows every
  name; one whose links fail with a log; and one that knows no name.
\<close>

definition demo_gl :: gl_env where
  "demo_gl =
     \<lparr>glCreateProgram_ret = (\<lambda>calls. 1),
      glGetProgramiv_ret = (\<lambda>calls. 1),
      glGetShaderiv_ret = (\<lambda>calls. 0),
      glGetShaderInfoLog_ret = (\<lambda>calls. []),
      glGetAttribLocation_ret = (\<lambda>calls. 3),
      glGetUniformLocation_ret = (\<lambda>calls. 5)\<rparr>"

definition demo_gl_link_fails :: gl_env where
  "demo_gl_link_fails =
     demo_gl\<lparr>glGetProgramiv_ret := (\<lambda>calls. 0),
             glGetShaderiv_ret := (\<lambda>calls. 9),
             glGetShaderInfoLog_ret := (\<lambda>calls. ''no main'')\<rparr>"

definition fresh_shader :: vtkShader where
  "fresh_shader =
     \<lparr>ShaderType = Unknown, ShaderHandle = 0, ShaderSource = [], ShaderError = []\<rparr>"

definition demo_vertex :: vtkShader where
  "demo_vertex =
     \<lparr>ShaderType = Vertex, ShaderHandle = 7,
      ShaderSource = ''void main() {}'', ShaderError = []\<rparr>"

definition demo_vertex2 :: vtkShader where
  "demo_vertex2 = demo_vertex\<lparr>ShaderHandle := 9\<rparr>"

definition demo_fragment :: vtkShader where
  "demo_fragment =
     \<lparr>ShaderType = Fragment, ShaderHandle = 8,
      ShaderSource = ''void main() {}'', ShaderError = []\<rparr>"

definition demo_fragment2 :: vtkShader where
  "demo_fragment2 = demo_fragment\<lparr>ShaderHandle := 10\<rparr>"

definition world0 :: world where
  "world0 = \<lparr>glCalls = [], errorOutput = []\<rparr>"

definition program0 :: vtkShaderProgram where
  "program0 = vtkShaderProgram_New fresh_shader"

text \<open>A program with both shaders attached, and the same program after a link.\<close>

definition program_attached :: vtkShaderProgram where
  "program_attached =
     program0\<lparr>Handle := 1, VertexShaderHandle := 7, FragmentShaderHandle := 8\<rparr>"

definition program_linked :: vtkShaderProgram where
  "program_linked = program_attached\<lparr>Linked := True\<rparr>"

definition window0 :: vtkOpenGLRenderWindow where
  "window0 = \<lparr>ShaderCache = \<lparr>LastShaderBound = None\<rparr>\<rparr>"

text \<open>
  The new program after a refused attach; and the program and the world after a vertex
  shader was attached to the new program and the graphics resources were released.
\<close>

definition program_failed_attach :: vtkShaderProgram where
  "program_failed_attach =
     program0\<lparr>Error := ''Shader object was not initialized, cannot attach it.''\<rparr>"

definition program_released :: vtkShaderProgram where
  "program_released = program0\<lparr>VertexShaderHandle := 7\<rparr>"


text \<open>
  A compile that fails with an error text and one that succeeds and sets the handle; a
  program whose vertex shader has a source of four lines; a compiled, linked and bound
  program, the window whose cache points to it (the program lives at address 4096), and
  what is left of both after the release.
\<close>

definition demo_Compile_fails :: "vtkShader \<Rightarrow> bool \<times> vtkShader" where
  "demo_Compile_fails shader = (False, shader\<lparr>ShaderError := ''0:2: syntax error''\<rparr>)"

definition demo_Compile :: "vtkShader \<Rightarrow> bool \<times> vtkShader" where
  "demo_Compile shader =
     (True, shader\<lparr>ShaderHandle := (if ShaderType shader = Vertex then 7 else 8)\<rparr>)"

definition program_with_sources :: vtkShaderProgram where
  "program_with_sources =
     program0\<lparr>VertexShader :=
       \<lparr>ShaderType = Vertex, ShaderHandle = 0,
        ShaderSource = ''void main()'' @ [CHR 0x0A] @ ''{'' @ [CHR 0x0A, CHR 0x0A] @ ''}'',
        ShaderError = []\<rparr>\<rparr>"

definition demo_vertex_failed :: vtkShader where
  "demo_vertex_failed =
     (VertexShader program_with_sources)\<lparr>ShaderError := ''0:2: syntax error''\<rparr>"

definition demo_Cleanup :: "vtkShader \<Rightarrow> vtkShader" where
  "demo_Cleanup shader = shader\<lparr>ShaderHandle := 0\<rparr>"

definition program_compiled :: vtkShaderProgram where
  "program_compiled =
     program_linked\<lparr>VertexShader := demo_vertex, FragmentShader := demo_fragment,
        Bound := True, Compiled := True\<rparr>"

definition window_bound :: vtkOpenGLRenderWindow where
  "window_bound = \<lparr>ShaderCache = \<lparr>LastShaderBound = Some 4096\<rparr>\<rparr>"

definition program_torn_down :: vtkShaderProgram where
  "program_torn_down =
     program0\<lparr>VertexShader := demo_vertex\<lparr>ShaderHandle := 0\<rparr>,
        FragmentShader := demo_fragment\<lparr>ShaderHandle := 0\<rparr>\<rparr>"

definition world_torn_down :: world where
  "world_torn_down =
     world0\<lparr>glCalls := [GlUseProgram 0, GlDetachShader 1 7, GlDetachShader 1 8,
        GlDeleteProgram 1]\<rparr>"

section \<open>Evaluation of the concrete objects\<close>

lemmas demo_defs = demo_gl_def demo_gl_link_fails_def fresh_shader_def demo_vertex_def
  demo_vertex2_def demo_fragment_def demo_fragment2_def world0_def program0_def
  program_attached_def program_linked_def window0_def vtkShaderProgram_New_def
  program_failed_attach_def program_released_def demo_Cleanup_def program_compiled_def
  window_bound_def program_torn_down_def world_torn_down_def

lemmas op_defs = AttachShader_def createProgramIfNeeded_def DetachShader_def Link_def
  native_def Let_def

lemma Link_program_attached:
  "Link demo_gl program_attached world0 =
     (True, program_attached\<lparr>Linked := True, Attributes := Map.empty\<rparr>,
      world0\<lparr>glCalls := [GlLinkProgram 1, GlGetProgramiv 1 GL_LINK_STATUS]\<rparr>)"
  by (simp add: Link_def native_def Let_def demo_defs)

lemma Link_fails_program_attached:
  "Link demo_gl_link_fails program_attached world0 =
     (False, program_attached\<lparr>Error := ''no main''\<rparr>,
      world0\<lparr>glCalls := [GlLinkProgram 1, GlGetProgramiv 1 GL_LINK_STATUS,
         GlGetShaderiv 1 GL_INFO_LOG_LENGTH, GlGetShaderInfoLog 1 9]\<rparr>)"
  by (simp add: Link_def native_def Let_def demo_defs)

lemma Attach_program_linked:
  "AttachShader demo_gl demo_vertex2 program_linked world0 =
     (True, program_linked\<lparr>VertexShaderHandle := 9, Linked := False\<rparr>,
      world0\<lparr>glCalls := [GlDetachShader 1 7, GlAttachShader 1 9]\<rparr>)"
  by (simp add: AttachShader_def createProgramIfNeeded_def native_def Let_def demo_defs)

lemma Attach_fragment_program_linked:
  "AttachShader demo_gl demo_fragment2 program_linked world0 =
     (True, program_linked\<lparr>FragmentShaderHandle := 10, Linked := False\<rparr>,
      world0\<lparr>glCalls := [GlDetachShader 1 8, GlAttachShader 1 10]\<rparr>)"
  by (simp add: AttachShader_def createProgramIfNeeded_def native_def Let_def demo_defs)

lemma Detach_program_linked:
  "DetachShader demo_fragment program_linked world0 =
     (True, program_linked\<lparr>FragmentShaderHandle := 0, Linked := False\<rparr>,
      world0\<lparr>glCalls := [GlDetachShader 1 8]\<rparr>)"
  by (simp add: DetachShader_def native_def Let_def demo_defs)


lemma Detach_program0:
  "DetachShader demo_vertex program0 world0 =
     (False, program0\<lparr>Error := ''The supplied shader was not attached to this program.''\<rparr>,
      world0)"
  by (simp add: DetachShader_def native_def Let_def demo_defs)

lemma not_Linked_program0: "\<not> Linked program0"
  by (simp add: demo_defs)

lemma Linked_program_linked: "Linked program_linked"
  by (simp add: demo_defs)

section \<open>The linked flag\<close>

text \<open>
  Claim C1. The flag \<open>Linked\<close> is true only between a successful \<^verbatim>\<open>Link()\<close> and the next
  attach or detach: a \<^verbatim>\<open>Link()\<close> that returns true leaves it true; \<^verbatim>\<open>Link()\<close> on a
  linked program returns true and changes nothing, issuing no native call; a \<^verbatim>\<open>Link()\<close>
  that returns false leaves it false; every successful \<^verbatim>\<open>AttachShader\<close> and every
  successful \<^verbatim>\<open>DetachShader\<close> leaves it false; neither of the two ever turns it on; and
  a new program is not linked.
\<close>

theorem linked_flag_transitions:
  "(Link gl this w = (True, this', w') \<longrightarrow> Linked this') \<and>
   (Linked thisK \<longrightarrow> Link gl thisK wK = (True, thisK, wK)) \<and>
   (Link gl thisF wF = (False, thisF', wF') \<longrightarrow> \<not> Linked thisF') \<and>
   (AttachShader gl shaderA thisA wA = (True, thisA', wA') \<longrightarrow> \<not> Linked thisA') \<and>
   (DetachShader shaderD thisD wD = (True, thisD', wD') \<longrightarrow> \<not> Linked thisD') \<and>
   (\<not> Linked thisN \<longrightarrow>
      \<not> Linked (fst (snd (AttachShader gl shaderN thisN wN))) \<and>
      \<not> Linked (fst (snd (DetachShader shaderN thisN wN)))) \<and>
   \<not> Linked (vtkShaderProgram_New fresh)"
proof (intro conjI impI)
  show "Linked this'" if "Link gl this w = (True, this', w')"
    using that by (auto simp: Link_def Let_def split: if_splits)
  show "Link gl thisK wK = (True, thisK, wK)" if "Linked thisK"
    using that by (simp add: Link_def)
  show "\<not> Linked thisF'" if "Link gl thisF wF = (False, thisF', wF')"
    using that by (auto simp: Link_def Let_def split: if_splits)
  show "\<not> Linked thisA'" if "AttachShader gl shaderA thisA wA = (True, thisA', wA')"
    using that
    by (auto simp: AttachShader_def createProgramIfNeeded_def Let_def
             split: if_splits sum.splits)
  show "\<not> Linked thisD'" if "DetachShader shaderD thisD wD = (True, thisD', wD')"
    using that
    by (auto simp: DetachShader_def Let_def split: if_splits shader_type.splits)
  show "\<not> Linked (fst (snd (AttachShader gl shaderN thisN wN)))" if "\<not> Linked thisN"
    using that
    by (auto simp: AttachShader_def createProgramIfNeeded_def Let_def
             split: if_splits sum.splits)
  show "\<not> Linked (fst (snd (DetachShader shaderN thisN wN)))" if "\<not> Linked thisN"
    using that
    by (auto simp: DetachShader_def Let_def split: if_splits shader_type.splits)
  show "\<not> Linked (vtkShaderProgram_New fresh)"
    by (simp add: vtkShaderProgram_New_def)
qed

theorem linked_flag_transitions_witness:
  "fst (Link demo_gl program_attached world0) \<and>
   Linked (fst (snd (Link demo_gl program_attached world0))) \<and>
   Linked program_linked \<and>
   Link demo_gl program_linked world0 = (True, program_linked, world0) \<and>
   \<not> fst (Link demo_gl_link_fails program_attached world0) \<and>
   \<not> Linked (fst (snd (Link demo_gl_link_fails program_attached world0))) \<and>
   fst (AttachShader demo_gl demo_vertex2 program_linked world0) \<and>
   \<not> Linked (fst (snd (AttachShader demo_gl demo_vertex2 program_linked world0))) \<and>
   fst (DetachShader demo_fragment program_linked world0) \<and>
   \<not> Linked (fst (snd (DetachShader demo_fragment program_linked world0))) \<and>
   \<not> Linked program0 \<and>
   \<not> Linked (fst (snd (AttachShader demo_gl demo_vertex program0 world0))) \<and>
   \<not> Linked (fst (snd (DetachShader demo_vertex program0 world0)))"
proof -
  note T = linked_flag_transitions
  have "Linked (fst (snd (Link demo_gl program_attached world0)))"
    using T [THEN conjunct1, THEN mp, OF Link_program_attached]
    by (simp add: Link_program_attached)
  moreover have "Link demo_gl program_linked world0 = (True, program_linked, world0)"
    using T [THEN conjunct2, THEN conjunct1, THEN mp, OF Linked_program_linked] .
  moreover have "\<not> Linked (fst (snd (Link demo_gl_link_fails program_attached world0)))"
    using T [THEN conjunct2, THEN conjunct2, THEN conjunct1, THEN mp,
             OF Link_fails_program_attached]
    by (simp add: Link_fails_program_attached)
  moreover have "\<not> Linked (fst (snd (AttachShader demo_gl demo_vertex2 program_linked world0)))"
    using T [THEN conjunct2, THEN conjunct2, THEN conjunct2, THEN conjunct1, THEN mp,
             OF Attach_program_linked]
    by (simp add: Attach_program_linked)
  moreover have "\<not> Linked (fst (snd (DetachShader demo_fragment program_linked world0)))"
    using T [THEN conjunct2, THEN conjunct2, THEN conjunct2, THEN conjunct2, THEN conjunct1,
             THEN mp, OF Detach_program_linked]
    by (simp add: Detach_program_linked)
  moreover have "\<not> Linked (fst (snd (AttachShader demo_gl demo_vertex program0 world0))) \<and>
      \<not> Linked (fst (snd (DetachShader demo_vertex program0 world0)))"
    using T [THEN conjunct2, THEN conjunct2, THEN conjunct2, THEN conjunct2, THEN conjunct2,
             THEN conjunct1, THEN mp, OF not_Linked_program0] .
  ultimately show ?thesis
    by (simp add: Link_program_attached Link_fails_program_attached Attach_program_linked
          Detach_program_linked Linked_program_linked not_Linked_program0)
qed

section \<open>Attaching\<close>

text \<open>
  Claim C5. For every shader whose native handle is 0, \<^verbatim>\<open>AttachShader\<close> returns false
  with the error text for an uninitialized shader, and creates no native program: the
  program is otherwise as before, its handle included, and no native call is issued.
\<close>

theorem AttachShader_uninitialized_shader:
  assumes "ShaderHandle shader = 0"
  shows "AttachShader gl shader this w =
           (False, this\<lparr>Error := ''Shader object was not initialized, cannot attach it.''\<rparr>, w) \<and>
         Handle (fst (snd (AttachShader gl shader this w))) = Handle this \<and>
         glCalls (snd (snd (AttachShader gl shader this w))) = glCalls w"
  using assms by (simp add: AttachShader_def)

lemma ShaderHandle_fresh_shader: "ShaderHandle fresh_shader = 0"
  by (simp add: fresh_shader_def)

theorem AttachShader_uninitialized_shader_witness:
  "ShaderHandle fresh_shader = 0 \<and>
   AttachShader demo_gl fresh_shader program0 world0 =
     (False, program0\<lparr>Error := ''Shader object was not initialized, cannot attach it.''\<rparr>,
      world0) \<and>
   Handle (fst (snd (AttachShader demo_gl fresh_shader program0 world0))) = Handle program0 \<and>
   glCalls (snd (snd (AttachShader demo_gl fresh_shader program0 world0))) = glCalls world0"
  using AttachShader_uninitialized_shader [OF ShaderHandle_fresh_shader, of demo_gl program0 world0]
    ShaderHandle_fresh_shader
  by simp

text \<open>
  Claim C4. On a program that holds a native handle and has a Vertex shader attached,
  \<^verbatim>\<open>AttachShader\<close> with a second valid Vertex shader issues exactly two native calls,
  first the detach of the handle recorded for the previous Vertex shader, then the attach
  of the new one; it records the new handle, returns true and leaves \<open>Linked\<close> false.
  The same holds for Fragment shaders.
\<close>

theorem AttachShader_replaces_same_type:
  assumes "Handle this \<noteq> 0" and "ShaderHandle shader \<noteq> 0"
  shows "(ShaderType shader = Vertex \<and> VertexShaderHandle this \<noteq> 0 \<longrightarrow>
           AttachShader gl shader this w =
             (True, this\<lparr>VertexShaderHandle := ShaderHandle shader, Linked := False\<rparr>,
              w\<lparr>glCalls := glCalls w @
                   [GlDetachShader (Handle this) (VertexShaderHandle this),
                    GlAttachShader (Handle this) (ShaderHandle shader)]\<rparr>)) \<and>
         (ShaderType shader = Fragment \<and> FragmentShaderHandle this \<noteq> 0 \<longrightarrow>
           AttachShader gl shader this w =
             (True, this\<lparr>FragmentShaderHandle := ShaderHandle shader, Linked := False\<rparr>,
              w\<lparr>glCalls := glCalls w @
                   [GlDetachShader (Handle this) (FragmentShaderHandle this),
                    GlAttachShader (Handle this) (ShaderHandle shader)]\<rparr>))"
  using assms
  by (simp add: AttachShader_def createProgramIfNeeded_def native_def Let_def)

lemma program_linked_fields:
  "Handle program_linked = 1" "VertexShaderHandle program_linked = 7"
  "FragmentShaderHandle program_linked = 8" "glCalls world0 = []"
  by (simp_all add: demo_defs)

lemma demo_shader_fields:
  "ShaderType demo_vertex2 = Vertex" "ShaderHandle demo_vertex2 = 9"
  "ShaderType demo_fragment2 = Fragment" "ShaderHandle demo_fragment2 = 10"
  "ShaderType demo_vertex = Vertex" "ShaderHandle demo_vertex = 7"
  "ShaderType demo_fragment = Fragment" "ShaderHandle demo_fragment = 8"
  by (simp_all add: demo_defs)

theorem AttachShader_replaces_same_type_witness:
  "Handle program_linked \<noteq> 0 \<and> ShaderHandle demo_vertex2 \<noteq> 0 \<and>
   ShaderHandle demo_fragment2 \<noteq> 0 \<and>
   ShaderType demo_vertex2 = Vertex \<and> VertexShaderHandle program_linked \<noteq> 0 \<and>
   ShaderType demo_fragment2 = Fragment \<and> FragmentShaderHandle program_linked \<noteq> 0 \<and>
   AttachShader demo_gl demo_vertex2 program_linked world0 =
     (True, program_linked\<lparr>VertexShaderHandle := 9, Linked := False\<rparr>,
      world0\<lparr>glCalls := [GlDetachShader 1 7, GlAttachShader 1 9]\<rparr>) \<and>
   AttachShader demo_gl demo_fragment2 program_linked world0 =
     (True, program_linked\<lparr>FragmentShaderHandle := 10, Linked := False\<rparr>,
      world0\<lparr>glCalls := [GlDetachShader 1 8, GlAttachShader 1 10]\<rparr>)"
proof -
  have h: "Handle program_linked \<noteq> 0" and v: "ShaderHandle demo_vertex2 \<noteq> 0"
    and f: "ShaderHandle demo_fragment2 \<noteq> 0"
    by (simp_all add: program_linked_fields demo_shader_fields)
  have hv: "ShaderType demo_vertex2 = Vertex \<and> VertexShaderHandle program_linked \<noteq> 0"
    and hf: "ShaderType demo_fragment2 = Fragment \<and> FragmentShaderHandle program_linked \<noteq> 0"
    by (simp_all add: program_linked_fields demo_shader_fields)
  from AttachShader_replaces_same_type [OF h v, THEN conjunct1, THEN mp, OF hv, of demo_gl world0]
  have 1: "AttachShader demo_gl demo_vertex2 program_linked world0 =
     (True, program_linked\<lparr>VertexShaderHandle := 9, Linked := False\<rparr>,
      world0\<lparr>glCalls := [GlDetachShader 1 7, GlAttachShader 1 9]\<rparr>)"
    by (simp add: program_linked_fields demo_shader_fields)
  from AttachShader_replaces_same_type [OF h f, THEN conjunct2, THEN mp, OF hf, of demo_gl world0]
  have 2: "AttachShader demo_gl demo_fragment2 program_linked world0 =
     (True, program_linked\<lparr>FragmentShaderHandle := 10, Linked := False\<rparr>,
      world0\<lparr>glCalls := [GlDetachShader 1 8, GlAttachShader 1 10]\<rparr>)"
    by (simp add: program_linked_fields demo_shader_fields)
  show ?thesis by (simp only: h v f hv hf 1 2 simp_thms)
qed

section \<open>The error string\<close>

lemma Attach_fresh_program0:
  "AttachShader demo_gl fresh_shader program0 world0 = (False, program_failed_attach, world0)"
  by (simp add: AttachShader_def demo_defs)

lemma Attach_program_failed_attach:
  "AttachShader demo_gl demo_vertex program_failed_attach world0 =
     (True, program_failed_attach\<lparr>Handle := 1, VertexShaderHandle := 7\<rparr>,
      world0\<lparr>glCalls := [GlCreateProgram, GlAttachShader 1 7]\<rparr>)"
  by (simp add: AttachShader_def createProgramIfNeeded_def native_def Let_def demo_defs)

lemma Link_after_failed_attach:
  "Link demo_gl (program_failed_attach\<lparr>Handle := 1, VertexShaderHandle := 7\<rparr>)
       (world0\<lparr>glCalls := [GlCreateProgram, GlAttachShader 1 7]\<rparr>) =
     (True,
      program_failed_attach\<lparr>Handle := 1, VertexShaderHandle := 7, Linked := True,
         Attributes := Map.empty\<rparr>,
      world0\<lparr>glCalls := [GlCreateProgram, GlAttachShader 1 7, GlLinkProgram 1,
         GlGetProgramiv 1 GL_LINK_STATUS]\<rparr>)"
  by (simp add: Link_def native_def Let_def demo_defs)

lemma Error_after_failed_attach:
  "Error (program_failed_attach\<lparr>Handle := 1, VertexShaderHandle := 7\<rparr>) =
     ''Shader object was not initialized, cannot attach it.''"
  "Error (program_failed_attach\<lparr>Handle := 1, VertexShaderHandle := 7, Linked := True,
         Attributes := Map.empty\<rparr>) =
     ''Shader object was not initialized, cannot attach it.''"
  by (simp_all add: demo_defs)

text \<open>
  Claim C8 says that success clears the error string. It does not: after a refused attach
  has recorded its error, a successful \<^verbatim>\<open>AttachShader\<close> and then a successful
  \<^verbatim>\<open>Link\<close> both return true and the error string is still that of the refused attach.
\<close>

theorem success_does_not_clear_Error_counterexample:
  "AttachShader demo_gl fresh_shader program0 world0 = (False, program_failed_attach, world0) \<and>
   AttachShader demo_gl demo_vertex program_failed_attach world0 =
     (True, program_failed_attach\<lparr>Handle := 1, VertexShaderHandle := 7\<rparr>,
      world0\<lparr>glCalls := [GlCreateProgram, GlAttachShader 1 7]\<rparr>) \<and>
   Error (program_failed_attach\<lparr>Handle := 1, VertexShaderHandle := 7\<rparr>) \<noteq> [] \<and>
   Link demo_gl (program_failed_attach\<lparr>Handle := 1, VertexShaderHandle := 7\<rparr>)
       (world0\<lparr>glCalls := [GlCreateProgram, GlAttachShader 1 7]\<rparr>) =
     (True,
      program_failed_attach\<lparr>Handle := 1, VertexShaderHandle := 7, Linked := True,
         Attributes := Map.empty\<rparr>,
      world0\<lparr>glCalls := [GlCreateProgram, GlAttachShader 1 7, GlLinkProgram 1,
         GlGetProgramiv 1 GL_LINK_STATUS]\<rparr>) \<and>
   Error (program_failed_attach\<lparr>Handle := 1, VertexShaderHandle := 7, Linked := True,
         Attributes := Map.empty\<rparr>) \<noteq> []"
  by (simp add: Attach_fresh_program0 Attach_program_failed_attach Link_after_failed_attach
        Error_after_failed_attach)

text \<open>
  Claim C8, amended. No code path clears the error string: a successful
  \<^verbatim>\<open>AttachShader\<close>, a successful \<^verbatim>\<open>Link\<close> and a successful \<^verbatim>\<open>DetachShader\<close> on a
  program that holds a native handle leave the error string exactly as it was before the
  call, so \<^verbatim>\<open>GetError()\<close> is empty after them only if it was empty before.
\<close>

theorem success_keeps_Error:
  "(AttachShader gl shader this w = (True, this', w') \<longrightarrow> Error this' = Error this) \<and>
   (Link gl thisL wL = (True, thisL', wL') \<longrightarrow> Error thisL' = Error thisL) \<and>
   (Handle thisD \<noteq> 0 \<and> DetachShader shaderD thisD wD = (True, thisD', wD') \<longrightarrow>
      Error thisD' = Error thisD)"
proof (intro conjI impI)
  show "Error this' = Error this" if "AttachShader gl shader this w = (True, this', w')"
    using that
    by (auto simp: AttachShader_def createProgramIfNeeded_def Let_def
             split: if_splits sum.splits)
  show "Error thisL' = Error thisL" if "Link gl thisL wL = (True, thisL', wL')"
    using that by (auto simp: Link_def Let_def split: if_splits)
  show "Error thisD' = Error thisD"
    if "Handle thisD \<noteq> 0 \<and> DetachShader shaderD thisD wD = (True, thisD', wD')"
    using that
    by (auto simp: DetachShader_def Let_def split: if_splits shader_type.splits)
qed

lemma Handle_program_linked_and_Detach:
  "Handle program_linked \<noteq> 0 \<and>
   DetachShader demo_fragment program_linked world0 =
     (True, program_linked\<lparr>FragmentShaderHandle := 0, Linked := False\<rparr>,
      world0\<lparr>glCalls := [GlDetachShader 1 8]\<rparr>)"
  by (simp add: Detach_program_linked program_linked_fields)

theorem success_keeps_Error_witness:
  "AttachShader demo_gl demo_vertex program_failed_attach world0 =
     (True, program_failed_attach\<lparr>Handle := 1, VertexShaderHandle := 7\<rparr>,
      world0\<lparr>glCalls := [GlCreateProgram, GlAttachShader 1 7]\<rparr>) \<and>
   Error (program_failed_attach\<lparr>Handle := 1, VertexShaderHandle := 7\<rparr>) =
     Error program_failed_attach \<and>
   Link demo_gl program_attached world0 =
     (True, program_attached\<lparr>Linked := True, Attributes := Map.empty\<rparr>,
      world0\<lparr>glCalls := [GlLinkProgram 1, GlGetProgramiv 1 GL_LINK_STATUS]\<rparr>) \<and>
   Error (program_attached\<lparr>Linked := True, Attributes := Map.empty\<rparr>) = Error program_attached \<and>
   Handle program_linked \<noteq> 0 \<and>
   DetachShader demo_fragment program_linked world0 =
     (True, program_linked\<lparr>FragmentShaderHandle := 0, Linked := False\<rparr>,
      world0\<lparr>glCalls := [GlDetachShader 1 8]\<rparr>) \<and>
   Error (program_linked\<lparr>FragmentShaderHandle := 0, Linked := False\<rparr>) = Error program_linked"
  by (simp only:
        success_keeps_Error [THEN conjunct1, THEN mp, OF Attach_program_failed_attach]
        success_keeps_Error [THEN conjunct2, THEN conjunct1, THEN mp, OF Link_program_attached]
        success_keeps_Error [THEN conjunct2, THEN conjunct2, THEN mp,
                             OF Handle_program_linked_and_Detach]
        Attach_program_failed_attach Link_program_attached Handle_program_linked_and_Detach
        simp_thms)

section \<open>Detaching from a program without a native handle\<close>




text \<open>
  The check of \<^verbatim>\<open>this->Handle == 0\<close> lacks the \<^verbatim>\<open>return false\<close> that the two checks
  before it have. Whenever the program has no native handle and the handle recorded for
  the shader's type is the shader's, the call therefore goes on: it issues
  \<^verbatim>\<open>glDetachShader\<close> on program 0 and returns true, with the not-initialized text in
  the error string.
\<close>

lemma DetachShader_without_handle_matching:
  assumes "ShaderHandle shader \<noteq> 0" and "Handle this = 0"
  shows "(ShaderType shader = Vertex \<and> VertexShaderHandle this = ShaderHandle shader \<longrightarrow>
            DetachShader shader this w =
              (True,
               this\<lparr>Error := ''This shader prorgram has not been initialized yet.'',
                    VertexShaderHandle := 0, Linked := False\<rparr>,
               native (GlDetachShader 0 (ShaderHandle shader)) w)) \<and>
         (ShaderType shader = Fragment \<and> FragmentShaderHandle this = ShaderHandle shader \<longrightarrow>
            DetachShader shader this w =
              (True,
               this\<lparr>Error := ''This shader prorgram has not been initialized yet.'',
                    FragmentShaderHandle := 0, Linked := False\<rparr>,
               native (GlDetachShader 0 (ShaderHandle shader)) w))"
  using assms by (simp add: DetachShader_def)


text \<open>
  Where the two recorded shader handles are 0, as in a new program, the missing return
  does not show in the result: for every shader with a non-zero handle and type Vertex or
  Fragment, \<^verbatim>\<open>DetachShader\<close> on a program whose native handle is 0 returns false, and
  the error text it leaves is the not-attached one, which has overwritten the
  not-initialized one; nothing else changes and no native call is issued.
\<close>

lemma DetachShader_without_handle:
  assumes "ShaderHandle shader \<noteq> 0"
    and "ShaderType shader = Vertex \<or> ShaderType shader = Fragment"
    and "Handle this = 0"
    and "VertexShaderHandle this = 0" and "FragmentShaderHandle this = 0"
  shows "DetachShader shader this w =
           (False,
            this\<lparr>Error := ''The supplied shader was not attached to this program.''\<rparr>, w)"
proof -
  from assms(2) show ?thesis
  proof
    assume "ShaderType shader = Vertex"
    with assms show ?thesis by (simp add: DetachShader_def)
  next
    assume "ShaderType shader = Fragment"
    with assms show ?thesis by (simp add: DetachShader_def)
  qed
qed

lemma DetachShader_without_handle_witness:
  "ShaderHandle demo_vertex \<noteq> 0 \<and>
   (ShaderType demo_vertex = Vertex \<or> ShaderType demo_vertex = Fragment) \<and>
   Handle program0 = 0 \<and> VertexShaderHandle program0 = 0 \<and> FragmentShaderHandle program0 = 0 \<and>
   DetachShader demo_vertex program0 world0 =
     (False,
      program0\<lparr>Error := ''The supplied shader was not attached to this program.''\<rparr>, world0)"
proof -
  have 1: "ShaderHandle demo_vertex \<noteq> 0"
    and 2: "ShaderType demo_vertex = Vertex \<or> ShaderType demo_vertex = Fragment"
    and 3: "Handle program0 = 0"
    and 4: "VertexShaderHandle program0 = 0" and 5: "FragmentShaderHandle program0 = 0"
    by (simp_all add: demo_defs)
  show ?thesis
    by (simp only: DetachShader_without_handle [OF 1 2 3 4 5, of world0] 1 2 3 4 5 simp_thms)
qed

section \<open>Name lookup\<close>

lemma Find_program0:
  "FindAttributeArray demo_gl ''vertexMC'' program0 world0 = (- 1, program0, world0)"
  "FindUniform demo_gl ''MCVCMatrix'' program0 world0 = (- 1, program0, world0)"
  "FindAttributeArray demo_gl [] program_linked world0 = (- 1, program_linked, world0)"
  "FindUniform demo_gl [] program_linked world0 = (- 1, program_linked, world0)"
  by (simp_all add: FindAttributeArray_def FindUniform_def demo_defs)

lemma Error_program0: "Error program0 = []" "Error program_linked = []"
  by (simp_all add: demo_defs)

text \<open>
  Claim C2 has the failed lookup set an error. It does not: on the new, unlinked program,
  and on a linked program with the empty name, \<^verbatim>\<open>FindAttributeArray\<close> and
  \<^verbatim>\<open>FindUniform\<close> return -1 and leave the program as it was; the error string was
  empty before and is empty after.
\<close>

theorem Find_unlinked_sets_no_error_counterexample:
  "\<not> Linked program0 \<and>
   FindAttributeArray demo_gl ''vertexMC'' program0 world0 = (- 1, program0, world0) \<and>
   FindUniform demo_gl ''MCVCMatrix'' program0 world0 = (- 1, program0, world0) \<and>
   FindAttributeArray demo_gl [] program_linked world0 = (- 1, program_linked, world0) \<and>
   FindUniform demo_gl [] program_linked world0 = (- 1, program_linked, world0) \<and>
   Error program0 = [] \<and> Error program_linked = []"
  by (simp add: Find_program0 Error_program0 not_Linked_program0)

text \<open>
  Claim C2, amended. For every name, \<^verbatim>\<open>FindAttributeArray\<close> and \<^verbatim>\<open>FindUniform\<close>
  called when the program is not linked, or with the empty name, return -1, issue no
  native call and leave the program unchanged, its error string included.
\<close>

theorem Find_unlinked_or_empty_name:
  assumes "name = [] \<or> \<not> Linked this"
  shows "FindAttributeArray gl name this w = (- 1, this, w) \<and>
         FindUniform gl name this w = (- 1, this, w)"
  using assms by (simp add: FindAttributeArray_def FindUniform_def)

theorem Find_unlinked_or_empty_name_witness:
  "(''vertexMC'' = [] \<or> \<not> Linked program0) \<and>
   FindAttributeArray demo_gl ''vertexMC'' program0 world0 = (- 1, program0, world0) \<and>
   FindUniform demo_gl ''vertexMC'' program0 world0 = (- 1, program0, world0) \<and>
   ([] = ([] :: string) \<or> \<not> Linked program_linked) \<and>
   FindAttributeArray demo_gl [] program_linked world0 = (- 1, program_linked, world0) \<and>
   FindUniform demo_gl [] program_linked world0 = (- 1, program_linked, world0)"
proof -
  have u: "''vertexMC'' = [] \<or> \<not> Linked program0"
    by (simp add: not_Linked_program0)
  have e: "[] = ([] :: string) \<or> \<not> Linked program_linked"
    by simp
  show ?thesis
    by (simp only: Find_unlinked_or_empty_name [OF u, of demo_gl world0]
          Find_unlinked_or_empty_name [OF e, of demo_gl world0] u e simp_thms)
qed








section \<open>Uploading a client-side array\<close>

text \<open>
  Claim C9. For the empty input sequence, \<^verbatim>\<open>SetAttributeArray\<close> returns false with the
  error text that refuses the empty array, and issues no native call; the result does not
  depend on the driver, on the type tag of the elements or on the other arguments of the
  upload, which are not reached.
\<close>

theorem SetAttributeArray_empty:
  "SetAttributeArray gl ids VTKTypeID name [] array_data tupleSize normalizeOpt this w =
     (False,
      this\<lparr>Error := ''Refusing to upload empty array for attribute '' @ name @ ''.''\<rparr>, w)"
  by (simp add: SetAttributeArray_def)

section \<open>Compilation\<close>

lemma spec_lines_from_unfold:
  "spec_lines_from cur s =
     (if cur @ s = [] then []
      else (cur @ takeWhile (\<lambda>c. c \<noteq> CHR 0x0A) s) #
           spec_lines_from [] (drop 1 (dropWhile (\<lambda>c. c \<noteq> CHR 0x0A) s)))"
  by (induction s arbitrary: cur) auto

lemma spec_lines_getline:
  "getline s = None \<Longrightarrow> spec_lines s = []"
  "getline s = Some (aline, rest) \<Longrightarrow> spec_lines s = aline # spec_lines rest"
  unfolding spec_lines_def
  by (subst spec_lines_from_unfold; auto simp: getline_def split: if_splits)+

lemma listingLoop_spec:
  "listingLoop stream lineNum sstm =
     sstm @ concat (map (\<lambda>(n, aline). showDecimal n @ '': '' @ aline @ [CHR 0x0A])
                      (enumerate lineNum (spec_lines stream)))"
proof (induction stream lineNum sstm rule: listingLoop.induct)
  case (1 stream lineNum sstm)
  show ?case
  proof (cases "getline stream")
    case None
    then show ?thesis
      by (subst listingLoop.simps) (simp add: spec_lines_getline(1))
  next
    case (Some p)
    obtain aline rest where p: "p = (aline, rest)" by (cases p)
    from Some p have g: "getline stream = Some (aline, rest)" by simp
    have "listingLoop stream lineNum sstm =
        listingLoop rest (lineNum + 1)
          (sstm @ showDecimal lineNum @ '': '' @ aline @ [CHR 0x0A])"
      by (subst listingLoop.simps) (simp add: g)
    also have "\<dots> =
        (sstm @ showDecimal lineNum @ '': '' @ aline @ [CHR 0x0A]) @
        concat (map (\<lambda>(n, aline). showDecimal n @ '': '' @ aline @ [CHR 0x0A])
                  (enumerate (lineNum + 1) (spec_lines rest)))"
      by (rule "1.IH" [OF Some p [symmetric]])
    finally show ?thesis
      by (simp add: spec_lines_getline(2) [OF g])
  qed
qed

lemma sourceListing_spec: "sourceListing source = spec_listing source"
  by (simp add: sourceListing_def spec_listing_def listingLoop_spec)

lemma AttachShader_keeps:
  "Compiled (fst (snd (AttachShader gl shader this w))) = Compiled this"
  "VertexShader (fst (snd (AttachShader gl shader this w))) = VertexShader this"
  "FragmentShader (fst (snd (AttachShader gl shader this w))) = FragmentShader this"
  by (simp_all add: AttachShader_def createProgramIfNeeded_def Let_def)

lemma Link_keeps:
  "Compiled (fst (snd (Link gl this w))) = Compiled this"
  by (simp add: Link_def Let_def)

text \<open>
  Claim C6. If the vertex shader's \<^verbatim>\<open>Compile()\<close> fails, \<^verbatim>\<open>CompileShader\<close> hands the
  vertex shader's own error to the error output, then the listing of that shader's source
  with its lines numbered from 1, and returns 0; the program is as before but for the
  vertex shader object the compile has left, and the native call log is as before: no
  attach, no link and no compile of the fragment shader has run. For every program,
  \<^verbatim>\<open>CompileShader\<close> returns 1 exactly when every step succeeds, and \<open>Compiled\<close> is true
  afterwards exactly when every step succeeded or it was true before.
\<close>

theorem CompileShader_vertex_failure:
  "(Compile (VertexShader this) = (False, vs) \<longrightarrow>
      CompileShader gl Compile this w =
        (0, this\<lparr>VertexShader := vs\<rparr>,
         w\<lparr>errorOutput := errorOutput w @
              [ShaderError vs, spec_listing (ShaderSource vs)]\<rparr>)) \<and>
   fst (CompileShader gl Compile thisC wC) =
     (if all_steps_succeed gl Compile thisC wC then 1 else 0) \<and>
   Compiled (fst (snd (CompileShader gl Compile thisC wC))) =
     (all_steps_succeed gl Compile thisC wC \<or> Compiled thisC)"
proof (intro conjI impI)
  assume "Compile (VertexShader this) = (False, vs)"
  then show "CompileShader gl Compile this w =
        (0, this\<lparr>VertexShader := vs\<rparr>,
         w\<lparr>errorOutput := errorOutput w @
              [ShaderError vs, spec_listing (ShaderSource vs)]\<rparr>)"
    by (simp add: CompileShader_def vtkErrorMacro_def sourceListing_spec)
next
  obtain okV vs where V: "Compile (VertexShader thisC) = (okV, vs)"
    by (cases "Compile (VertexShader thisC)") auto
  obtain okF fs where F: "Compile (FragmentShader thisC) = (okF, fs)"
    by (cases "Compile (FragmentShader thisC)") auto
  define this2 where "this2 = thisC\<lparr>VertexShader := vs, FragmentShader := fs\<rparr>"
  obtain okA thisA wA where A: "AttachShader gl vs this2 wC = (okA, thisA, wA)"
    by (cases "AttachShader gl vs this2 wC") auto
  obtain okB thisB wB where B: "AttachShader gl fs thisA wA = (okB, thisB, wB)"
    by (cases "AttachShader gl fs thisA wA") auto
  obtain okL thisL wL where L: "Link gl thisB wB = (okL, thisL, wL)"
    by (cases "Link gl thisB wB") auto
  have kA: "Compiled thisA = Compiled thisC" "FragmentShader thisA = fs"
    using AttachShader_keeps(1,3) [of gl vs this2 wC, unfolded A fst_conv snd_conv]
    by (simp_all add: this2_def)
  have kB: "Compiled thisB = Compiled thisC"
    using AttachShader_keeps(1) [of gl fs thisA wA, unfolded B fst_conv snd_conv]
    by (simp add: kA)
  have kL: "Compiled thisL = Compiled thisC"
    using Link_keeps [of gl thisB wB, unfolded L fst_conv snd_conv] by (simp add: kB)
  note A' = A [unfolded this2_def]
  have all: "all_steps_succeed gl Compile thisC wC = (okV \<and> okF \<and> okA \<and> okB \<and> okL)"
    by (simp add: all_steps_succeed_def V F A' B L)
  have res: "fst (CompileShader gl Compile thisC wC) =
        (if okV \<and> okF \<and> okA \<and> okB \<and> okL then 1 else 0) \<and>
      Compiled (fst (snd (CompileShader gl Compile thisC wC))) =
        ((okV \<and> okF \<and> okA \<and> okB \<and> okL) \<or> Compiled thisC)"
    by (cases okV; cases okF; cases okA; cases okB; cases okL;
        simp add: CompileShader_def V F A' B L kA kB kL)
  show "fst (CompileShader gl Compile thisC wC) =
     (if all_steps_succeed gl Compile thisC wC then 1 else 0)"
    using res by (simp only: all)
  show "Compiled (fst (snd (CompileShader gl Compile thisC wC))) =
     (all_steps_succeed gl Compile thisC wC \<or> Compiled thisC)"
    using res by (simp only: all)
qed

lemma Compile_fails_program_with_sources:
  "demo_Compile_fails (VertexShader program_with_sources) = (False, demo_vertex_failed)"
  by (simp add: demo_Compile_fails_def demo_vertex_failed_def)

lemma demo_vertex_failed_fields:
  "ShaderError demo_vertex_failed = ''0:2: syntax error''"
  "ShaderSource demo_vertex_failed = ''void main()\<newline>{\<newline>\<newline>}''"
  by (simp_all add: demo_vertex_failed_def program_with_sources_def)

lemma spec_listing_demo:
  "spec_listing ''void main()\<newline>{\<newline>\<newline>}'' =
     ''1: void main()\<newline>2: {\<newline>3: \<newline>4: }\<newline>''"
  by code_simp

lemma all_steps_succeed_demo:
  "all_steps_succeed demo_gl demo_Compile program_with_sources world0"
  by (simp add: all_steps_succeed_def demo_Compile_def program_with_sources_def
        AttachShader_def createProgramIfNeeded_def Link_def native_def Let_def demo_defs)

theorem CompileShader_vertex_failure_witness:
  "demo_Compile_fails (VertexShader program_with_sources) = (False, demo_vertex_failed) \<and>
   CompileShader demo_gl demo_Compile_fails program_with_sources world0 =
     (0, program_with_sources\<lparr>VertexShader := demo_vertex_failed\<rparr>,
      world0\<lparr>errorOutput :=
        [''0:2: syntax error'',
         ''1: void main()\<newline>2: {\<newline>3: \<newline>4: }\<newline>'']\<rparr>) \<and>
   all_steps_succeed demo_gl demo_Compile program_with_sources world0 \<and>
   fst (CompileShader demo_gl demo_Compile program_with_sources world0) = 1 \<and>
   Compiled (fst (snd (CompileShader demo_gl demo_Compile program_with_sources world0)))"
proof -
  note T = CompileShader_vertex_failure
  have "CompileShader demo_gl demo_Compile_fails program_with_sources world0 =
     (0, program_with_sources\<lparr>VertexShader := demo_vertex_failed\<rparr>,
      world0\<lparr>errorOutput :=
        [''0:2: syntax error'',
         ''1: void main()\<newline>2: {\<newline>3: \<newline>4: }\<newline>'']\<rparr>)"
    using T [where Compile = demo_Compile_fails and this = program_with_sources
               and vs = demo_vertex_failed and gl = demo_gl and w = world0,
             THEN conjunct1, THEN mp, OF Compile_fails_program_with_sources]
    by (simp add: demo_vertex_failed_fields spec_listing_demo world0_def)
  moreover have "fst (CompileShader demo_gl demo_Compile program_with_sources world0) = 1"
    using T [where Compile = demo_Compile and thisC = program_with_sources
               and gl = demo_gl and wC = world0, THEN conjunct2, THEN conjunct1]
    by (simp add: all_steps_succeed_demo)
  moreover have "Compiled (fst (snd (CompileShader demo_gl demo_Compile program_with_sources world0)))"
    using T [where Compile = demo_Compile and thisC = program_with_sources
               and gl = demo_gl and wC = world0, THEN conjunct2, THEN conjunct2]
    by (simp add: all_steps_succeed_demo)
  ultimately show ?thesis
    by (simp add: Compile_fails_program_with_sources all_steps_succeed_demo)
qed

section \<open>Release of the graphics resources\<close>

lemma DetachShader_fields:
  "Handle (fst (snd (DetachShader shader this w))) = Handle this"
  "Bound (fst (snd (DetachShader shader this w))) = Bound this"
  "Compiled (fst (snd (DetachShader shader this w))) = Compiled this"
  "Linked (fst (snd (DetachShader shader this w))) \<Longrightarrow> Linked this"
  by (cases "ShaderType shader"; simp add: DetachShader_def Let_def split: if_splits)+

lemma cleanupIfCompiled_fields:
  "Handle (fst (cleanupIfCompiled Cleanup this w)) = Handle this"
  "Bound (fst (cleanupIfCompiled Cleanup this w)) = Bound this"
  "\<not> Compiled (fst (cleanupIfCompiled Cleanup this w))"
  "Linked (fst (cleanupIfCompiled Cleanup this w)) \<Longrightarrow> Linked this"
proof -
  obtain okV thisV wV where V: "DetachShader (VertexShader this) this w = (okV, thisV, wV)"
    by (cases "DetachShader (VertexShader this) this w") auto
  obtain okF thisF wF where F: "DetachShader (FragmentShader thisV) thisV wV = (okF, thisF, wF)"
    by (cases "DetachShader (FragmentShader thisV) thisV wV") auto
  have v: "Handle thisV = Handle this" "Bound thisV = Bound this"
      "Compiled thisV = Compiled this" "Linked thisV \<Longrightarrow> Linked this"
    using DetachShader_fields [of "VertexShader this" this w] by (simp_all add: V)
  have f: "Handle thisF = Handle thisV" "Bound thisF = Bound thisV"
      "Compiled thisF = Compiled thisV" "Linked thisF \<Longrightarrow> Linked thisV"
    using DetachShader_fields [of "FragmentShader thisV" thisV wV] by (simp_all add: F)
  show "Handle (fst (cleanupIfCompiled Cleanup this w)) = Handle this"
    by (simp add: cleanupIfCompiled_def V F v f)
  show "Bound (fst (cleanupIfCompiled Cleanup this w)) = Bound this"
    by (simp add: cleanupIfCompiled_def V F v f)
  show "\<not> Compiled (fst (cleanupIfCompiled Cleanup this w))"
    by (simp add: cleanupIfCompiled_def V F v f)
  show "Linked this" if "Linked (fst (cleanupIfCompiled Cleanup this w))"
    using that v(4) f(4) by (simp add: cleanupIfCompiled_def V F split: if_splits)
qed

lemma cleanupIfCompiled_not_Compiled:
  "\<not> Compiled this \<Longrightarrow> cleanupIfCompiled Cleanup this w = (this, w)"
  by (simp add: cleanupIfCompiled_def)

lemma released_fixpoint:
  fixes this :: vtkShaderProgram
  assumes "\<not> Bound this"
  shows "this\<lparr>Bound := False\<rparr> = this"
  using assms by (cases this) simp

text \<open>
  The operations keep \<open>linked_has_handle\<close>, which holds of a new program (shown with the
  idempotence of the release below).
\<close>

lemma linked_has_handle_AttachShader:
  "linked_has_handle this \<Longrightarrow> linked_has_handle (fst (snd (AttachShader gl shader this w)))"
  by (simp add: linked_has_handle_def AttachShader_def createProgramIfNeeded_def Let_def) blast

lemma linked_has_handle_DetachShader:
  "linked_has_handle this \<Longrightarrow> linked_has_handle (fst (snd (DetachShader shader this w)))"
  using DetachShader_fields(1,4) [of shader this w] by (auto simp: linked_has_handle_def)

lemma linked_has_handle_Link:
  "linked_has_handle this \<Longrightarrow> linked_has_handle (fst (snd (Link gl this w)))"
  by (simp add: linked_has_handle_def Link_def Let_def)

lemma linked_has_handle_Bind:
  "linked_has_handle this \<Longrightarrow> linked_has_handle (fst (snd (Bind gl this w)))"
proof -
  assume inv: "linked_has_handle this"
  obtain ok this1 w1 where L: "Link gl this w = (ok, this1, w1)"
    by (cases "Link gl this w") auto
  have "linked_has_handle this1"
    using linked_has_handle_Link [OF inv, of gl w] by (simp add: L)
  then show ?thesis
    using inv by (cases ok) (simp_all add: Bind_def L linked_has_handle_def)
qed

lemma linked_has_handle_Release:
  "linked_has_handle this \<Longrightarrow> linked_has_handle (fst (Release this w))"
  by (simp add: linked_has_handle_def Release_def)

lemma linked_has_handle_Find:
  "linked_has_handle this \<Longrightarrow> linked_has_handle (fst (snd (FindAttributeArray gl name this w)))"
  "linked_has_handle this \<Longrightarrow> linked_has_handle (fst (snd (FindUniform gl name this w)))"
  by (simp_all add: linked_has_handle_def FindAttributeArray_def FindUniform_def Let_def)

lemma linked_has_handle_ReleaseGraphicsResources:
  assumes "linked_has_handle this"
    and "ReleaseGraphicsResources Cleanup self win this w = Inr (this', renWin', w')"
  shows "linked_has_handle this'"
proof -
  obtain this2 w2 where C:
    "cleanupIfCompiled Cleanup (this\<lparr>Bound := False\<rparr>) (native (GlUseProgram 0) w) = (this2, w2)"
    by (cases "cleanupIfCompiled Cleanup (this\<lparr>Bound := False\<rparr>) (native (GlUseProgram 0) w)") auto
  note cf = cleanupIfCompiled_fields
    [of Cleanup "this\<lparr>Bound := False\<rparr>" "native (GlUseProgram 0) w", unfolded C fst_conv]
  have "linked_has_handle this2"
    using assms(1) cf(1) cf(4) by (auto simp: linked_has_handle_def)
  then show ?thesis
    using assms(2)
    by (auto simp: ReleaseGraphicsResources_def Release_def C Let_def linked_has_handle_def
             split: option.splits if_splits)
qed

lemma linked_has_handle_SetAttributeArray:
  "linked_has_handle this \<Longrightarrow>
     linked_has_handle
       (fst (snd (SetAttributeArrayInternal gl ids name buffer type tupleSize normalizeOpt this w)))"
  "linked_has_handle this \<Longrightarrow>
     linked_has_handle
       (fst (snd (SetAttributeArray gl ids VTKTypeID name array array_data tupleSize
                    normalizeOpt this w)))"
  by (simp_all add: linked_has_handle_def SetAttributeArray_def SetAttributeArrayInternal_def
        FindAttributeArray_def Let_def)

lemma linked_has_handle_CompileShader:
  assumes "linked_has_handle this"
  shows "linked_has_handle (fst (snd (CompileShader gl Compile this w)))"
proof -
  obtain okV vs where V: "Compile (VertexShader this) = (okV, vs)"
    by (cases "Compile (VertexShader this)") auto
  obtain okF fs where F: "Compile (FragmentShader this) = (okF, fs)"
    by (cases "Compile (FragmentShader this)") auto
  define this2 where "this2 = this\<lparr>VertexShader := vs, FragmentShader := fs\<rparr>"
  obtain okA thisA wA where A: "AttachShader gl vs this2 w = (okA, thisA, wA)"
    by (cases "AttachShader gl vs this2 w") auto
  obtain okB thisB wB where B: "AttachShader gl (FragmentShader thisA) thisA wA = (okB, thisB, wB)"
    by (cases "AttachShader gl (FragmentShader thisA) thisA wA") auto
  obtain okL thisL wL where L: "Link gl thisB wB = (okL, thisL, wL)"
    by (cases "Link gl thisB wB") auto
  have i1: "linked_has_handle (this\<lparr>VertexShader := vs\<rparr>)"
    using assms by (simp add: linked_has_handle_def)
  have i2: "linked_has_handle this2"
    using assms by (simp add: linked_has_handle_def this2_def)
  have iA: "linked_has_handle thisA"
    using linked_has_handle_AttachShader [OF i2, of gl vs w] by (simp add: A)
  have iB: "linked_has_handle thisB"
    using linked_has_handle_AttachShader [OF iA, of gl "FragmentShader thisA" wA] by (simp add: B)
  have iL: "linked_has_handle thisL"
    using linked_has_handle_Link [OF iB, of gl wB] by (simp add: L)
  have iC: "linked_has_handle (thisL\<lparr>Compiled := True\<rparr>)"
    using iL by (simp add: linked_has_handle_def)
  note A' = A [unfolded this2_def]
  note i2' = i2 [unfolded this2_def]
  show ?thesis
    by (cases okV; cases okF; cases okA; cases okB; cases okL;
        simp add: CompileShader_def V F A' B L i1 i2' iA iB iL iC)
qed

lemma cleanup_program_compiled:
  "cleanupIfCompiled demo_Cleanup (program_compiled\<lparr>Bound := False\<rparr>)
       (world0\<lparr>glCalls := [GlUseProgram 0]\<rparr>) =
     (program_torn_down\<lparr>Handle := 1\<rparr>,
      world0\<lparr>glCalls := [GlUseProgram 0, GlDetachShader 1 7, GlDetachShader 1 8]\<rparr>)"
  by (simp add: cleanupIfCompiled_def DetachShader_def native_def Let_def demo_defs)

lemma Release_program_compiled:
  "ReleaseGraphicsResources demo_Cleanup 4096 (Some window_bound) program_compiled world0 =
     Inr (program_torn_down, window0, world_torn_down)"
  using cleanup_program_compiled
  by (simp add: ReleaseGraphicsResources_def Release_def native_def Let_def
        ClearLastShaderBound_def world0_def window_bound_def window0_def world_torn_down_def)
     (simp add: demo_defs)

lemma linked_has_handle_program_compiled: "linked_has_handle program_compiled"
  by (simp add: linked_has_handle_def demo_defs)

text \<open>
  Claim C7: \<^verbatim>\<open>ReleaseGraphicsResources\<close> does not fail, called twice in a row or on a
  program that never had a shader attached. The code fails on the following input: a new
  program, and a window pointer that is \<^verbatim>\<open>NULL\<close> or points to a window that is not a
  \<^verbatim>\<open>vtkOpenGLRenderWindow\<close>. \<^verbatim>\<open>SafeDownCast\<close> then returns \<^verbatim>\<open>NULL\<close>, and the code
  calls \<^verbatim>\<open>GetShaderCache()\<close> through it without a check: the call ends in the
  dereference of a null pointer, not in the state the claim describes. The same holds of
  every program and of the second of two calls.
\<close>

theorem ReleaseGraphicsResources_null_window:
  "ReleaseGraphicsResources demo_Cleanup 4096 None program0 world0 =
     Inl NullPointerDereference \<and>
   ReleaseGraphicsResources Cleanup self None this w = Inl NullPointerDereference \<and>
   ReleaseGraphicsResources demo_Cleanup 4096 (Some window_bound) program_compiled world0 =
     Inr (program_torn_down, window0, world_torn_down) \<and>
   ReleaseGraphicsResources demo_Cleanup 4096 None program_torn_down world_torn_down =
     Inl NullPointerDereference"
proof -
  have n: "ReleaseGraphicsResources C s None t v = Inl NullPointerDereference"
    for C s t v
    by (cases "cleanupIfCompiled C (t\<lparr>Bound := False\<rparr>) (native (GlUseProgram 0) v)")
       (simp add: ReleaseGraphicsResources_def Release_def)
  show ?thesis
    by (simp add: n Release_program_compiled)
qed

text \<open>
  With a window that is an OpenGL render window the release is idempotent:
  \<^verbatim>\<open>ReleaseGraphicsResources\<close> does not fail
  and leaves \<open>Handle\<close> 0 and \<open>Linked\<close>, \<open>Bound\<close> and \<open>Compiled\<close> false; a second call right
  after it does not fail either and leaves the program and the window's cache as the first
  call left them, issuing nothing but the \<^verbatim>\<open>glUseProgram(0)\<close> of \<^verbatim>\<open>Release\<close>. This holds
  from every state in which a linked program has a native handle, as every state reached
  from a new program has. On a program that never had a shader attached, the new one, the
  call does not fail and changes nothing of the program.
\<close>

lemma ReleaseGraphicsResources_idempotent:
  "(linked_has_handle this \<longrightarrow>
      (case ReleaseGraphicsResources Cleanup self (Some renWin) this w of
         Inl e \<Rightarrow> False
       | Inr (this', renWin', w') \<Rightarrow>
           Handle this' = 0 \<and> \<not> Linked this' \<and> \<not> Bound this' \<and> \<not> Compiled this' \<and>
           ReleaseGraphicsResources Cleanup self (Some renWin') this' w' =
             Inr (this', renWin', native (GlUseProgram 0) w'))) \<and>
   linked_has_handle (vtkShaderProgram_New fresh) \<and>
   ReleaseGraphicsResources Cleanup self (Some renWin) (vtkShaderProgram_New fresh) w =
     Inr (vtkShaderProgram_New fresh,
          if LastShaderBound (ShaderCache renWin) = Some self
          then renWin\<lparr>ShaderCache := ClearLastShaderBound (ShaderCache renWin)\<rparr> else renWin,
          native (GlUseProgram 0) w)"
proof (intro conjI impI)
  assume inv: "linked_has_handle this"
  define this1 where "this1 = this\<lparr>Bound := False\<rparr>"
  define w1 where "w1 = native (GlUseProgram 0) w"
  obtain this2 w2 where C: "cleanupIfCompiled Cleanup this1 w1 = (this2, w2)"
    by (cases "cleanupIfCompiled Cleanup this1 w1") auto
  have c: "Handle this2 = Handle this" "\<not> Bound this2" "\<not> Compiled this2"
      "Linked this2 \<Longrightarrow> Linked this"
  proof -
    have b: "Handle this1 = Handle this" "\<not> Bound this1" "Linked this1 = Linked this"
      by (simp_all add: this1_def)
    note cf = cleanupIfCompiled_fields [of Cleanup this1 w1, unfolded C fst_conv]
    show "Handle this2 = Handle this" using cf(1) b(1) by simp
    show "\<not> Bound this2" using cf(2) b(2) by simp
    show "\<not> Compiled this2" using cf(3) .
    show "Linked this" if "Linked this2" using cf(4) [OF that] b(3) by simp
  qed
  define renWin1 where "renWin1 =
      (if LastShaderBound (ShaderCache renWin) = Some self
       then renWin\<lparr>ShaderCache := ClearLastShaderBound (ShaderCache renWin)\<rparr> else renWin)"
  have r: "LastShaderBound (ShaderCache renWin1) \<noteq> Some self"
    by (simp add: renWin1_def ClearLastShaderBound_def)
  define this3 where "this3 = (if Handle this2 \<noteq> 0 then this2\<lparr>Handle := 0, Linked := False\<rparr> else this2)"
  define w3 where "w3 = (if Handle this2 \<noteq> 0 then native (GlDeleteProgram (Handle this2)) w2 else w2)"
  have first: "ReleaseGraphicsResources Cleanup self (Some renWin) this w = Inr (this3, renWin1, w3)"
    by (simp add: ReleaseGraphicsResources_def Release_def C Let_def
          this1_def [symmetric] w1_def [symmetric] renWin1_def this3_def w3_def)
  have nl: "\<not> Linked this3"
    using inv c by (auto simp: this3_def linked_has_handle_def)
  have f3: "Handle this3 = 0" "\<not> Bound this3" "\<not> Compiled this3"
    using c by (simp_all add: this3_def)
  have second: "ReleaseGraphicsResources Cleanup self (Some renWin1) this3 w3 =
      Inr (this3, renWin1, native (GlUseProgram 0) w3)"
    using f3 r
    by (simp add: ReleaseGraphicsResources_def Release_def Let_def released_fixpoint
          cleanupIfCompiled_not_Compiled)
  show "case ReleaseGraphicsResources Cleanup self (Some renWin) this w of
         Inl e \<Rightarrow> False
       | Inr (this', renWin', w') \<Rightarrow>
           Handle this' = 0 \<and> \<not> Linked this' \<and> \<not> Bound this' \<and> \<not> Compiled this' \<and>
           ReleaseGraphicsResources Cleanup self (Some renWin') this' w' =
             Inr (this', renWin', native (GlUseProgram 0) w')"
    by (simp add: first nl f3 second)
next
  show "linked_has_handle (vtkShaderProgram_New fresh)"
    by (simp add: linked_has_handle_def vtkShaderProgram_New_def)
next
  show "ReleaseGraphicsResources Cleanup self (Some renWin) (vtkShaderProgram_New fresh) w =
     Inr (vtkShaderProgram_New fresh,
          if LastShaderBound (ShaderCache renWin) = Some self
          then renWin\<lparr>ShaderCache := ClearLastShaderBound (ShaderCache renWin)\<rparr> else renWin,
          native (GlUseProgram 0) w)"
    by (simp add: ReleaseGraphicsResources_def Release_def Let_def
          cleanupIfCompiled_def vtkShaderProgram_New_def)
qed

lemma ReleaseGraphicsResources_idempotent_witness:
  "linked_has_handle program_compiled \<and>
   ReleaseGraphicsResources demo_Cleanup 4096 (Some window_bound) program_compiled world0 =
     Inr (program_torn_down, window0, world_torn_down) \<and>
   Handle program_torn_down = 0 \<and> \<not> Linked program_torn_down \<and>
   \<not> Bound program_torn_down \<and> \<not> Compiled program_torn_down \<and>
   ReleaseGraphicsResources demo_Cleanup 4096 (Some window0) program_torn_down world_torn_down =
     Inr (program_torn_down, window0, native (GlUseProgram 0) world_torn_down)"
  using ReleaseGraphicsResources_idempotent
    [THEN conjunct1, THEN mp, OF linked_has_handle_program_compiled,
     of demo_Cleanup 4096 window_bound world0]
    linked_has_handle_program_compiled
  by (simp add: Release_program_compiled)

end
